theory Spec2Isabelle
  imports Main "HOL-Library.Word"
begin

unbundle bit_operations_syntax

section \<open>Bytes, fixed-size arrays and errors\<close>

type_synonym byte = "8 word"
type_synonym u64 = "64 word"

text \<open>Go's \<open>common.Address\<close> is \<open>[20]byte\<close>; the fields \<open>R\<close> and \<open>S\<close> of a
  signature are \<open>[32]byte\<close>. A fixed-size array is a byte list of exactly that length.\<close>

typedef address = "{bs :: byte list. length bs = 20}"
  by (rule exI [of _ "replicate 20 0"]) simp

typedef bytes32 = "{bs :: byte list. length bs = 32}"
  by (rule exI [of _ "replicate 32 0"]) simp

text \<open>\<open>Address.Bytes()\<close> returns the 20 bytes of the array, \<open>a[:]\<close>.\<close>

definition Bytes :: "address \<Rightarrow> byte list" where
  "Bytes a = Rep_address a"

text \<open>\<open>common.Address{}\<close>, the zero value.\<close>

definition zero_address :: address where
  "zero_address = Abs_address (replicate 20 0)"

text \<open>The sentinel errors of errors.go, the errors built with \<open>fmt.Errorf\<close> (a message
  alone, with an index, wrapping another error, or carrying the values it formats), the
  error of the context (\<open>ctx.Err()\<close>), an
  opaque error of a cryptographic primitive, and the two panics the code can reach: a method
  call on a nil \<open>*big.Int\<close> and \<open>FillBytes\<close> on a buffer that is too small.\<close>

datatype error =
    ErrInvalidSignatureLength
  | ErrInvalidSignature
  | ErrExpiredDeadline
  | ErrInvalidNonce
  | ErrZeroAddress
  | ErrInvalidAmount
  | ErrContractCallFailed
  | LengthMismatch nat nat
  | NonceMismatch nat u64 u64
  | ContextErr
  | PrimitiveErr
  | Wrap string error
  | WrapAt string nat error
  | Errorf string
  | ErrorfAt string nat
  | PanicNilDeref
  | PanicFillBytes

section \<open>types.go: Signature\<close>

record Signature =
  V :: byte
  R :: bytes32
  S :: bytes32

text \<open>Go's builtin \<open>copy(dst[lo:hi], src)\<close>: it copies \<open>min (hi - lo) (len src)\<close> bytes
  and leaves the rest of \<open>dst\<close> as it was.\<close>

definition copy_into :: "nat \<Rightarrow> nat \<Rightarrow> byte list \<Rightarrow> byte list \<Rightarrow> byte list" where
  "copy_into lo hi dst src =
     (let n = min (hi - lo) (length src)
      in take lo dst @ take n src @ drop (lo + n) dst)"

definition ToBytes :: "Signature \<Rightarrow> byte list" where
  "ToBytes s =
     (let result0 = replicate 65 0;
          result1 = copy_into 0 32 result0 (Rep_bytes32 (R s));
          result2 = copy_into 32 64 result1 (Rep_bytes32 (S s))
      in result2 [64 := V s])"

text \<open>\<open>FromBytes\<close> has a pointer receiver: the model takes the receiver's value and returns
  it as the call leaves it, with the error (\<open>None\<close> is \<open>nil\<close>).\<close>

definition FromBytes :: "Signature \<Rightarrow> byte list \<Rightarrow> Signature \<times> error option" where
  "FromBytes s data =
     (if length data \<noteq> 65 then (s, Some ErrInvalidSignatureLength)
      else (s\<lparr>R := Abs_bytes32 (copy_into 0 32 (Rep_bytes32 (R s)) (take 32 data)),
              S := Abs_bytes32 (copy_into 0 32 (Rep_bytes32 (S s)) (take 32 (drop 32 data))),
              V := data ! 64\<rparr>, None))"

section \<open>types.go: MetaTx and the batch types\<close>

text \<open>\<open>Amount\<close> is a \<open>*big.Int\<close>: \<open>None\<close> is the nil pointer, \<open>Some a\<close> an unbounded
  integer. \<open>Gas\<close>, \<open>Nonce\<close> and \<open>Deadline\<close> are \<open>uint64\<close>.\<close>

record MetaTx =
  From :: address
  To :: address
  Token :: address
  Amount :: "int option"
  Gas :: u64
  Nonce :: u64
  Deadline :: u64

record BatchMetaTxRequest =
  MetaTx :: MetaTx
  Signature :: Signature

type_synonym BatchMetaTxRequestList = "BatchMetaTxRequest list"

section \<open>The external primitive Keccak-256\<close>

text \<open>\<open>crypto.Keccak256\<close> of go-ethereum: the Keccak sponge with rate 136 bytes, capacity
  64 bytes, the original padding (first pad byte \<open>0x01\<close>, last \<open>0x80\<close>) and 32 bytes of
  output. The state is 25 lanes of 64 bits, lane \<open>(x, y)\<close> at index \<open>x + 5 * y\<close>.\<close>

type_synonym lane = int

text \<open>A lane is an integer in \<open>[0, 2 ^ 64)\<close>; rotation and complement are written out
  with their wrap-around at 64 bits.\<close>

definition rotl64 :: "nat \<Rightarrow> lane \<Rightarrow> lane" where
  "rotl64 n w = (w * 2 ^ n) mod 2 ^ 64 + w div 2 ^ (64 - n)"

definition not64 :: "lane \<Rightarrow> lane" where
  "not64 w = 2 ^ 64 - 1 - w"

definition round_constants :: "lane list" where
  "round_constants = [
    0x0000000000000001, 0x0000000000008082, 0x800000000000808A, 0x8000000080008000,
    0x000000000000808B, 0x0000000080000001, 0x8000000080008081, 0x8000000000008009,
    0x000000000000008A, 0x0000000000000088, 0x0000000080008009, 0x000000008000000A,
    0x000000008000808B, 0x800000000000008B, 0x8000000000008089, 0x8000000000008003,
    0x8000000000008002, 0x8000000000000080, 0x000000000000800A, 0x800000008000000A,
    0x8000000080008081, 0x8000000000008080, 0x0000000080000001, 0x8000000080008008]"

definition rotation_offsets :: "nat list" where
  "rotation_offsets = [0, 1, 62, 28, 27,  36, 44, 6, 55, 20,  3, 10, 43, 25, 39,
                       41, 45, 15, 21, 8,  18, 2, 61, 56, 14]"

definition theta :: "lane list \<Rightarrow> lane list" where
  "theta a =
     (let c = map (\<lambda>x. a ! x XOR a ! (x + 5) XOR a ! (x + 10) XOR a ! (x + 15) XOR a ! (x + 20))
                [0..<5];
          d = map (\<lambda>x. c ! ((x + 4) mod 5) XOR rotl64 1 (c ! ((x + 1) mod 5))) [0..<5]
      in map (\<lambda>i. a ! i XOR d ! (i mod 5)) [0..<25])"

text \<open>Lane \<open>(x, y)\<close> moves to \<open>(y, 2x + 3y)\<close>, rotated by its offset: the lane that arrives
  at \<open>(X, Y)\<close> comes from \<open>((X + 3Y) mod 5, X)\<close>.\<close>

definition rho_pi :: "lane list \<Rightarrow> lane list" where
  "rho_pi a =
     map (\<lambda>j. let X = j mod 5; Y = j div 5; i = (X + 3 * Y) mod 5 + 5 * X
              in rotl64 (rotation_offsets ! i) (a ! i)) [0..<25]"

definition chi :: "lane list \<Rightarrow> lane list" where
  "chi b =
     map (\<lambda>j. let x = j mod 5; y = j div 5
              in b ! j XOR (not64 (b ! ((x + 1) mod 5 + 5 * y)) AND b ! ((x + 2) mod 5 + 5 * y)))
         [0..<25]"

definition iota :: "lane \<Rightarrow> lane list \<Rightarrow> lane list" where
  "iota rc a = (case a of [] \<Rightarrow> [] | l # ls \<Rightarrow> (l XOR rc) # ls)"

definition keccak_round :: "lane list \<Rightarrow> lane \<Rightarrow> lane list" where
  "keccak_round a rc = iota rc (chi (rho_pi (theta a)))"

definition keccak_f :: "lane list \<Rightarrow> lane list" where
  "keccak_f a = foldl keccak_round a round_constants"

text \<open>Lanes are read from and written to bytes in little-endian order.\<close>

definition lane_of_bytes :: "byte list \<Rightarrow> lane" where
  "lane_of_bytes bs = foldr (\<lambda>b acc. uint b + 256 * acc) bs 0"

definition bytes_of_lane :: "lane \<Rightarrow> byte list" where
  "bytes_of_lane w = map (\<lambda>i. word_of_int (w div 256 ^ i)) [0..<8]"

fun chunks :: "nat \<Rightarrow> 'a list \<Rightarrow> 'a list list" where
  "chunks n xs = (if n = 0 \<or> xs = [] then [] else take n xs # chunks n (drop n xs))"

definition keccak_pad :: "byte list \<Rightarrow> byte list" where
  "keccak_pad m =
     (let q = 136 - length m mod 136
      in if q = 1 then m @ [0x81] else m @ [0x01] @ replicate (q - 2) 0 @ [0x80])"

definition absorb_block :: "lane list \<Rightarrow> byte list \<Rightarrow> lane list" where
  "absorb_block st blk =
     keccak_f (map2 (XOR) st (map lane_of_bytes (chunks 8 blk) @ replicate 8 0))"

definition Keccak256 :: "byte list \<Rightarrow> byte list" where
  "Keccak256 m =
     take 32 (concat (map bytes_of_lane
       (foldl absorb_block (replicate 25 0) (chunks 136 (keccak_pad m)))))"

text \<open>\<open>[]byte(str)\<close>: the bytes of a Go string.\<close>

definition bytes_of_string :: "string \<Rightarrow> byte list" where
  "bytes_of_string str = map (\<lambda>c. of_nat (of_char c)) str"

section \<open>big.Int.FillBytes\<close>

text \<open>\<open>be_bytes n v\<close> is the \<open>n\<close>-byte big-endian representation of \<open>v\<close> (its low \<open>8 * n\<close>
  bits). \<open>x.FillBytes(buf)\<close> stores the absolute value of \<open>x\<close> in \<open>buf\<close>, zero-extended and
  big-endian, and panics when it does not fit.\<close>

definition be_bytes :: "nat \<Rightarrow> nat \<Rightarrow> byte list" where
  "be_bytes n v = map (\<lambda>i. of_nat (v div 256 ^ (n - 1 - i))) [0..<n]"

definition FillBytes :: "int \<Rightarrow> byte list \<Rightarrow> error + byte list" where
  "FillBytes x buf =
     (if nat \<bar>x\<bar> < 256 ^ length buf then Inr (be_bytes (length buf) (nat \<bar>x\<bar>))
      else Inl PanicFillBytes)"

text \<open>\<open>new(big.Int).SetUint64(u).FillBytes(make([]byte, 32))\<close>.\<close>

definition uint64_bytes32 :: "u64 \<Rightarrow> byte list" where
  "uint64_bytes32 u = be_bytes 32 (unat u)"

text \<open>A panic is not an error value: it passes every \<open>if err != nil\<close> untouched, where a
  returned error is wrapped by \<open>fmt.Errorf("...: %w", err)\<close>.\<close>

fun wrap :: "string \<Rightarrow> error \<Rightarrow> error" where
  "wrap msg PanicNilDeref = PanicNilDeref"
| "wrap msg PanicFillBytes = PanicFillBytes"
| "wrap msg e = Wrap msg e"

fun wrap_at :: "string \<Rightarrow> nat \<Rightarrow> error \<Rightarrow> error" where
  "wrap_at msg i PanicNilDeref = PanicNilDeref"
| "wrap_at msg i PanicFillBytes = PanicFillBytes"
| "wrap_at msg i e = WrapAt msg i e"

section \<open>types.go: TransferData\<close>

definition TransferData :: "MetaTx \<Rightarrow> error + byte list" where
  "TransferData m =
     (let transferSignature = take 4 (Keccak256 (bytes_of_string ''transfer(address,uint256)''));
          data0 = [] @ transferSignature;
          toBytes = copy_into 12 32 (replicate 32 0) (Bytes (To m));
          data1 = data0 @ toBytes
      in case Amount m of
           None \<Rightarrow> Inl PanicNilDeref
         | Some a \<Rightarrow>
             (case FillBytes a (replicate 32 0) of
                Inl p \<Rightarrow> Inl p
              | Inr amountBytes \<Rightarrow> Inr (data1 @ amountBytes)))"

section \<open>eip712.go\<close>

definition EIP712_DOMAIN_TYPEHASH :: string where
  "EIP712_DOMAIN_TYPEHASH =
     ''EIP712Domain(string name,string version,uint256 chainId,address verifyingContract)''"

definition FORWARD_REQUEST_TYPEHASH :: string where
  "FORWARD_REQUEST_TYPEHASH =
     ''ForwardRequest(address from,address to,uint256 value,uint256 gas,uint256 nonce,uint48 deadline,bytes data)''"

definition BuildDomainSeparator ::
    "string \<Rightarrow> string \<Rightarrow> int option \<Rightarrow> address \<Rightarrow> error + byte list" where
  "BuildDomainSeparator name version chainId verifyingContract =
     (let domainTypeHash = Keccak256 (bytes_of_string EIP712_DOMAIN_TYPEHASH);
          nameHash = Keccak256 (bytes_of_string name);
          versionHash = Keccak256 (bytes_of_string version)
      in case chainId of
           None \<Rightarrow> Inl PanicNilDeref
         | Some c \<Rightarrow>
             (case FillBytes c (replicate 32 0) of
                Inl p \<Rightarrow> Inl p
              | Inr chainIdBytes \<Rightarrow>
                  Inr (Keccak256 (domainTypeHash @ nameHash @ versionHash @ chainIdBytes
                                  @ Bytes verifyingContract))))"

definition HashMetaTx :: "MetaTx \<Rightarrow> byte list \<Rightarrow> error + byte list" where
  "HashMetaTx metaTx domainSeparator =
     (let structTypeHash = Keccak256 (bytes_of_string FORWARD_REQUEST_TYPEHASH)
      in case TransferData metaTx of
           Inl err \<Rightarrow> Inl (wrap ''failed to prepare transfer data'' err)
         | Inr transferData \<Rightarrow>
             (let valueBytes = replicate 32 0;
                  gasBytes = uint64_bytes32 (Gas metaTx);
                  nonceBytes = uint64_bytes32 (Nonce metaTx);
                  deadlineBytes = uint64_bytes32 (Deadline metaTx);
                  dataHash = Keccak256 transferData;
                  structData = structTypeHash @ Bytes (From metaTx) @ Bytes (Token metaTx)
                               @ valueBytes @ gasBytes @ nonceBytes @ deadlineBytes @ dataHash;
                  structHash = Keccak256 structData;
                  digest = [0x19, 0x01] @ domainSeparator @ structHash
              in Inr (Keccak256 digest)))"

text \<open>The signing and recovery primitives of secp256k1 (\<open>crypto.Sign\<close>, \<open>crypto.SigToPub\<close>,
  \<open>crypto.PubkeyToAddress\<close>) are parameters of the functions that call them.\<close>

definition VerifyMetaTxSignature ::
    "(byte list \<Rightarrow> byte list \<Rightarrow> error + 'pub) \<Rightarrow> ('pub \<Rightarrow> address)
     \<Rightarrow> MetaTx \<Rightarrow> Signature \<Rightarrow> byte list \<Rightarrow> error + bool" where
  "VerifyMetaTxSignature SigToPub PubkeyToAddress metaTx sig domainSeparator =
     (case HashMetaTx metaTx domainSeparator of
        Inl err \<Rightarrow> Inl (wrap ''failed to hash MetaTx'' err)
      | Inr hash \<Rightarrow>
          (let sigBytes = ToBytes sig
           in case SigToPub hash sigBytes of
                Inl err \<Rightarrow> Inl (wrap ''failed to recover public key'' err)
              | Inr recoveredPubKey \<Rightarrow>
                  Inr (PubkeyToAddress recoveredPubKey = From metaTx)))"

section \<open>utils.go: constructors and batch validators\<close>

definition NewMetaTx ::
    "address \<Rightarrow> address \<Rightarrow> address \<Rightarrow> int option \<Rightarrow> u64 \<Rightarrow> u64 \<Rightarrow> u64 \<Rightarrow> MetaTx" where
  "NewMetaTx from to token amount gas nonce deadline =
     \<lparr>From = from, To = to, Token = token, Amount = amount, Gas = gas, Nonce = nonce,
      Deadline = deadline\<rparr>"

definition NewMetaTxWithDefaultGas ::
    "address \<Rightarrow> address \<Rightarrow> address \<Rightarrow> int option \<Rightarrow> u64 \<Rightarrow> u64 \<Rightarrow> MetaTx" where
  "NewMetaTxWithDefaultGas from to token amount nonce deadline =
     NewMetaTx from to token amount 100000 nonce deadline"

text \<open>The loop \<open>for i := range recipients\<close> fills \<open>metaTxs[i]\<close>; \<open>uint64(i)\<close> is
  \<open>of_nat i\<close> and the addition wraps at \<open>2 ^ 64\<close>.\<close>

definition NewMetaTxBatch ::
    "address \<Rightarrow> address list \<Rightarrow> address \<Rightarrow> int option list \<Rightarrow> u64 \<Rightarrow> u64 \<Rightarrow> u64
     \<Rightarrow> error + MetaTx list" where
  "NewMetaTxBatch from recipients token amounts gas startingNonce deadline =
     (if length recipients \<noteq> length amounts
      then Inl (LengthMismatch (length recipients) (length amounts))
      else Inr (map (\<lambda>i. NewMetaTx from (recipients ! i) token (amounts ! i) gas
                            (startingNonce + of_nat i) deadline)
                    [0..<length recipients]))"

text \<open>\<open>ValidateBatchNonces\<close>: the loop from index \<open>i\<close> on; the error carries the index,
  the expected and the found nonce, as the formatted message does.\<close>

fun nonces_from :: "nat \<Rightarrow> BatchMetaTxRequestList \<Rightarrow> u64 \<Rightarrow> error option" where
  "nonces_from i [] expectedStartNonce = None"
| "nonces_from i (req # rest) expectedStartNonce =
     (let expectedNonce = expectedStartNonce + of_nat i
      in if Nonce (MetaTx req) \<noteq> expectedNonce
         then Some (NonceMismatch i expectedNonce (Nonce (MetaTx req)))
         else nonces_from (Suc i) rest expectedStartNonce)"

definition ValidateBatchNonces :: "BatchMetaTxRequestList \<Rightarrow> u64 \<Rightarrow> error option" where
  "ValidateBatchNonces batch expectedStartNonce = nonces_from 0 batch expectedStartNonce"

section \<open>relayer.go: validation\<close>

definition validateMetaTx :: "MetaTx \<Rightarrow> error option" where
  "validateMetaTx metaTx =
     (if From metaTx = zero_address then Some ErrZeroAddress
      else if To metaTx = zero_address then Some ErrZeroAddress
      else if Token metaTx = zero_address then Some ErrZeroAddress
      else if (case Amount metaTx of None \<Rightarrow> True | Some a \<Rightarrow> sgn a \<le> 0)
           then Some ErrInvalidAmount
      else if Deadline metaTx = 0 then Some ErrExpiredDeadline
      else None)"

text \<open>\<open>RelayMetaTx\<close> up to the call data: \<open>now\<close> is \<open>uint64(time.Now().Unix())\<close>, and
  \<open>submit\<close> stands for everything after the transfer data is built (packing the
  \<open>execute\<close> call, the queries to the node, signing and sending the transaction).\<close>

definition RelayMetaTx ::
    "u64 \<Rightarrow> (MetaTx \<Rightarrow> byte list \<Rightarrow> byte list \<Rightarrow> error + 'h) \<Rightarrow> MetaTx \<Rightarrow> Signature
     \<Rightarrow> error + 'h" where
  "RelayMetaTx now submit metaTx sig =
     (case validateMetaTx metaTx of
        Some err \<Rightarrow> Inl (wrap ''invalid MetaTx'' err)
      | None \<Rightarrow>
          if Deadline metaTx < now then Inl ErrExpiredDeadline
          else (case TransferData metaTx of
                  Inl err \<Rightarrow> Inl (wrap ''failed to prepare transfer data'' err)
                | Inr transferData \<Rightarrow> submit metaTx transferData (ToBytes sig)))"

text \<open>The first loop of \<open>RelayMetaTxBatch\<close>, from index \<open>i\<close> on; \<open>now i\<close> is the clock
  read at element \<open>i\<close>.\<close>

fun validate_from :: "(nat \<Rightarrow> u64) \<Rightarrow> nat \<Rightarrow> BatchMetaTxRequestList \<Rightarrow> error option" where
  "validate_from now i [] = None"
| "validate_from now i (req # rest) =
     (case validateMetaTx (MetaTx req) of
        Some err \<Rightarrow> Some (wrap_at ''invalid MetaTx at index'' i err)
      | None \<Rightarrow>
          if Deadline (MetaTx req) < now i
          then Some (ErrorfAt ''request has expired deadline at index'' i)
          else validate_from now (Suc i) rest)"

text \<open>\<open>RelayMetaTxBatch\<close> up to the validation of the requests; \<open>submit\<close> stands for the
  rest (preparing and packing the requests, the queries to the node, signing and sending).\<close>

definition RelayMetaTxBatch ::
    "(nat \<Rightarrow> u64) \<Rightarrow> (BatchMetaTxRequestList \<Rightarrow> address \<Rightarrow> error + 'h)
     \<Rightarrow> BatchMetaTxRequestList \<Rightarrow> address \<Rightarrow> error + 'h" where
  "RelayMetaTxBatch now submit batchRequests refundReceiver =
     (if length batchRequests = 0 then Inl (Errorf ''batch cannot be empty'')
      else (case validate_from now 0 batchRequests of
              Some err \<Rightarrow> Inl err
            | None \<Rightarrow> submit batchRequests refundReceiver))"

section \<open>Signing and the batch operations\<close>

text \<open>\<open>var sig Signature\<close>: the zero value.\<close>

definition zero_signature :: Signature where
  "zero_signature = \<lparr>V = 0, R = Abs_bytes32 (replicate 32 0), S = Abs_bytes32 (replicate 32 0)\<rparr>"

definition SignMetaTx ::
    "(byte list \<Rightarrow> 'key \<Rightarrow> error + byte list) \<Rightarrow> MetaTx \<Rightarrow> 'key \<Rightarrow> byte list
     \<Rightarrow> error + Signature" where
  "SignMetaTx Sign metaTx userPrivKey domainSeparator =
     (case HashMetaTx metaTx domainSeparator of
        Inl err \<Rightarrow> Inl (wrap ''failed to hash MetaTx'' err)
      | Inr hash \<Rightarrow>
          (case Sign hash userPrivKey of
             Inl err \<Rightarrow> Inl (wrap ''failed to sign hash'' err)
           | Inr sigBytes \<Rightarrow>
               (case FromBytes zero_signature sigBytes of
                  (sig, Some err) \<Rightarrow> Inl (wrap ''failed to parse signature'' err)
                | (sig, None) \<Rightarrow> Inr sig)))"

definition CreateBatchRequest ::
    "(byte list \<Rightarrow> 'key \<Rightarrow> error + byte list) \<Rightarrow> MetaTx \<Rightarrow> 'key \<Rightarrow> byte list
     \<Rightarrow> error + BatchMetaTxRequest" where
  "CreateBatchRequest Sign metaTx userPrivKey domainSeparator =
     (case SignMetaTx Sign metaTx userPrivKey domainSeparator of
        Inl err \<Rightarrow> Inl (wrap ''failed to sign MetaTx'' err)
      | Inr signature \<Rightarrow> Inr \<lparr>MetaTx = metaTx, Signature = signature\<rparr>)"

text \<open>The cancellation signal as the loops see it: \<open>ctx i\<close> tells whether the \<open>select\<close>
  that runs before element \<open>i\<close> finds \<open>ctx.Done()\<close> closed. A batch loop returns its result
  together with the elements it has handed to the function that reaches the primitive, in
  the order of the calls: the only way to \<open>crypto.Sign\<close> is \<open>CreateBatchRequest\<close>, the only
  way to \<open>crypto.SigToPub\<close> is \<open>VerifyMetaTxSignature\<close>.\<close>

type_synonym ctx = "nat \<Rightarrow> bool"

fun batch_loop ::
    "ctx \<Rightarrow> ('a \<Rightarrow> error + 'b) \<Rightarrow> string \<Rightarrow> nat \<Rightarrow> 'a list \<Rightarrow> (error + 'b list) \<times> 'a list" where
  "batch_loop ctx step msg i [] = (Inr [], [])"
| "batch_loop ctx step msg i (x # rest) =
     (if ctx i then (Inl ContextErr, [])
      else (case step x of
              Inl err \<Rightarrow> (Inl (wrap_at msg i err), [x])
            | Inr y \<Rightarrow>
                (case batch_loop ctx step msg (Suc i) rest of
                   (Inl err, calls) \<Rightarrow> (Inl err, x # calls)
                 | (Inr ys, calls) \<Rightarrow> (Inr (y # ys), x # calls))))"

definition CreateBatchFromSingleUser ::
    "ctx \<Rightarrow> (byte list \<Rightarrow> 'key \<Rightarrow> error + byte list) \<Rightarrow> MetaTx list \<Rightarrow> 'key \<Rightarrow> byte list
     \<Rightarrow> (error + BatchMetaTxRequestList) \<times> (MetaTx \<times> 'key) list" where
  "CreateBatchFromSingleUser ctx Sign metaTxs userPrivKey domainSeparator =
     batch_loop ctx (\<lambda>(metaTx, k). CreateBatchRequest Sign metaTx k domainSeparator)
       ''failed to create batch request at index'' 0
       (map (\<lambda>metaTx. (metaTx, userPrivKey)) metaTxs)"

definition CreateBatchFromMetaTxs ::
    "ctx \<Rightarrow> (byte list \<Rightarrow> 'key \<Rightarrow> error + byte list) \<Rightarrow> MetaTx list \<Rightarrow> 'key list \<Rightarrow> byte list
     \<Rightarrow> (error + BatchMetaTxRequestList) \<times> (MetaTx \<times> 'key) list" where
  "CreateBatchFromMetaTxs ctx Sign metaTxs userPrivKeys domainSeparator =
     (if length metaTxs \<noteq> length userPrivKeys
      then (Inl (LengthMismatch (length metaTxs) (length userPrivKeys)), [])
      else batch_loop ctx (\<lambda>(metaTx, k). CreateBatchRequest Sign metaTx k domainSeparator)
             ''failed to create batch request at index'' 0 (zip metaTxs userPrivKeys))"

definition VerifyBatchRequests ::
    "ctx \<Rightarrow> (byte list \<Rightarrow> byte list \<Rightarrow> error + 'pub) \<Rightarrow> ('pub \<Rightarrow> address)
     \<Rightarrow> BatchMetaTxRequestList \<Rightarrow> byte list
     \<Rightarrow> (error + bool list) \<times> BatchMetaTxRequestList" where
  "VerifyBatchRequests ctx SigToPub PubkeyToAddress batchRequests domainSeparator =
     batch_loop ctx
       (\<lambda>req. VerifyMetaTxSignature SigToPub PubkeyToAddress (MetaTx req) (Signature req)
                 domainSeparator)
       ''failed to verify signature for request'' 0 batchRequests"

section \<open>The encodings as the specification words them\<close>

text \<open>\<open>leftpad32\<close>: 12 zero bytes, then the 20 bytes of the address. \<open>be32\<close>: the 32-byte
  big-endian unsigned representation.\<close>

definition leftpad32 :: "address \<Rightarrow> byte list" where
  "leftpad32 a = replicate 12 0 @ Bytes a"

definition be32 :: "nat \<Rightarrow> byte list" where
  "be32 n = be_bytes 32 n"

definition spec_transferCalldata :: "address \<Rightarrow> nat \<Rightarrow> byte list" where
  "spec_transferCalldata to amount =
     take 4 (Keccak256 (bytes_of_string ''transfer(address,uint256)''))
     @ leftpad32 to @ be32 amount"

definition spec_domainSeparator :: "string \<Rightarrow> string \<Rightarrow> nat \<Rightarrow> address \<Rightarrow> byte list" where
  "spec_domainSeparator name version chainId verifyingContract =
     Keccak256 (Keccak256 (bytes_of_string EIP712_DOMAIN_TYPEHASH)
                @ Keccak256 (bytes_of_string name)
                @ Keccak256 (bytes_of_string version)
                @ be32 chainId
                @ leftpad32 verifyingContract)"

definition spec_structHash :: "MetaTx \<Rightarrow> nat \<Rightarrow> byte list" where
  "spec_structHash m amount =
     Keccak256 (Keccak256 (bytes_of_string FORWARD_REQUEST_TYPEHASH)
                @ leftpad32 (From m)
                @ leftpad32 (Token m)
                @ be32 0
                @ be32 (unat (Gas m))
                @ be32 (unat (Nonce m))
                @ be32 (unat (Deadline m))
                @ Keccak256 (spec_transferCalldata (To m) amount))"

definition spec_digest :: "MetaTx \<Rightarrow> nat \<Rightarrow> byte list \<Rightarrow> byte list" where
  "spec_digest m amount domainSeparator =
     Keccak256 ([0x19, 0x01] @ domainSeparator @ spec_structHash m amount)"

section \<open>Properties of the signature record\<close>

lemma length_Rep_bytes32 [simp]: "length (Rep_bytes32 x) = 32"
  using Rep_bytes32 [of x] by simp

lemma length_Rep_address [simp]: "length (Rep_address a) = 20"
  using Rep_address [of a] by simp

lemma length_Bytes [simp]: "length (Bytes a) = 20"
  by (simp add: Bytes_def)

lemma copy_into_whole:
  "length src = n \<Longrightarrow> length dst = n \<Longrightarrow> copy_into 0 n dst src = src"
  by (simp add: copy_into_def)

lemma ToBytes_layout: "ToBytes s = Rep_bytes32 (R s) @ Rep_bytes32 (S s) @ [V s]"
  by (simp add: ToBytes_def copy_into_def Let_def list_update_append)

lemma length_ToBytes [simp]: "length (ToBytes s) = 65"
  by (simp add: ToBytes_layout)

text \<open>C4: for every signature \<open>s\<close>, whatever the receiver held before, \<open>FromBytes\<close> on the
  65 bytes of \<open>ToBytes s\<close> succeeds and leaves exactly \<open>s\<close> in the receiver; and \<open>ToBytes\<close>
  emits \<open>r[0..32] || s[0..32] || v\<close>.\<close>

theorem C4_signature_roundtrip:
  "FromBytes s0 (ToBytes s) = (s, None)
   \<and> ToBytes s = Rep_bytes32 (R s) @ Rep_bytes32 (S s) @ [V s]
   \<and> length (ToBytes s) = 65"
proof -
  have r: "take 32 (ToBytes s) = Rep_bytes32 (R s)"
    by (simp add: ToBytes_layout)
  have t: "take 32 (drop 32 (ToBytes s)) = Rep_bytes32 (S s)"
    by (simp add: ToBytes_layout)
  have v: "ToBytes s ! 64 = V s"
    by (simp add: ToBytes_layout nth_append)
  have "FromBytes s0 (ToBytes s) = (s0\<lparr>R := R s, S := S s, V := V s\<rparr>, None)"
    by (simp add: FromBytes_def r t v copy_into_whole Rep_bytes32_inverse)
  then show ?thesis
    by (simp add: ToBytes_layout)
qed

text \<open>C5: on a byte string whose length is not 65, \<open>FromBytes\<close> returns
  \<open>ErrInvalidSignatureLength\<close> and the receiver is unchanged; on every 65-byte string it
  returns no error.\<close>

theorem C5_from_bytes_length:
  "(length data \<noteq> 65 \<longrightarrow> FromBytes s data = (s, Some ErrInvalidSignatureLength))
   \<and> (length data = 65 \<longrightarrow> snd (FromBytes s data) = None)"
  by (simp add: FromBytes_def)

theorem C5_from_bytes_length_witness:
  "length (replicate 64 (7 :: byte)) \<noteq> 65
   \<and> FromBytes \<lparr>V = 1, R = Abs_bytes32 (replicate 32 2), S = Abs_bytes32 (replicate 32 3)\<rparr>
        (replicate 64 7)
       = (\<lparr>V = 1, R = Abs_bytes32 (replicate 32 2), S = Abs_bytes32 (replicate 32 3)\<rparr>,
          Some ErrInvalidSignatureLength)
   \<and> length (replicate 65 (7 :: byte)) = 65
   \<and> snd (FromBytes \<lparr>V = 1, R = Abs_bytes32 (replicate 32 2), S = Abs_bytes32 (replicate 32 3)\<rparr>
        (replicate 65 7)) = None"
  using C5_from_bytes_length
    [of "replicate 64 7" "\<lparr>V = 1, R = Abs_bytes32 (replicate 32 2), S = Abs_bytes32 (replicate 32 3)\<rparr>"]
    C5_from_bytes_length
    [of "replicate 65 7" "\<lparr>V = 1, R = Abs_bytes32 (replicate 32 2), S = Abs_bytes32 (replicate 32 3)\<rparr>"]
  by simp

section \<open>Keccak-256: the transfer selector and the length of a digest\<close>

text \<open>V1: the first four bytes of the Keccak-256 digest of \<open>transfer(address,uint256)\<close>
  are \<open>a9 05 9c bb\<close>, by evaluation of the sponge.\<close>

lemma transfer_selector:
  "take 4 (Keccak256 (bytes_of_string ''transfer(address,uint256)'')) = [0xa9, 0x05, 0x9c, 0xbb]"
  by code_simp

declare chunks.simps [simp del]

lemma length_chi [simp]: "length (chi b) = 25"
  by (simp add: chi_def)

lemma length_iota [simp]: "length (iota rc a) = length a"
  by (simp add: iota_def split: list.split)

lemma length_keccak_round [simp]: "length (keccak_round a rc) = 25"
  by (simp add: keccak_round_def)

lemma length_keccak_f [simp]: "length (keccak_f a) = 25"
  by (simp add: keccak_f_def round_constants_def)

lemma length_absorb_block [simp]: "length (absorb_block st blk) = 25"
  by (simp add: absorb_block_def)

lemma length_absorb_all: "length st = 25 \<Longrightarrow> length (foldl absorb_block st blks) = 25"
  by (induction blks arbitrary: st) simp_all

lemma length_bytes_of_lane [simp]: "length (bytes_of_lane w) = 8"
  by (simp add: bytes_of_lane_def)

lemma length_concat_lanes: "length (concat (map bytes_of_lane st)) = 8 * length st"
  by (induction st) simp_all

lemma length_Keccak256 [simp]: "length (Keccak256 m) = 32"
  by (simp add: Keccak256_def length_concat_lanes length_absorb_all)

lemma length_be_bytes [simp]: "length (be_bytes n v) = n"
  by (simp add: be_bytes_def)

lemma toBytes_leftpad: "copy_into 12 32 (replicate 32 0) (Bytes a) = leftpad32 a"
  by (simp add: copy_into_def leftpad32_def)

lemma length_leftpad32 [simp]: "length (leftpad32 a) = 32"
  by (simp add: leftpad32_def)

lemma TransferData_in_range:
  "Amount m = Some a \<Longrightarrow> \<bar>a\<bar> < 2 ^ 256 \<Longrightarrow>
   TransferData m = Inr (take 4 (Keccak256 (bytes_of_string ''transfer(address,uint256)''))
                         @ leftpad32 (To m) @ be32 (nat \<bar>a\<bar>))"
  by (simp add: TransferData_def FillBytes_def toBytes_leftpad be32_def Let_def)

lemma be_bytes_zero [simp]: "be_bytes n 0 = replicate n 0"
  by (simp add: be_bytes_def map_replicate_const)

lemma HashMetaTx_in_range:
  "Amount m = Some a \<Longrightarrow> \<bar>a\<bar> < 2 ^ 256 \<Longrightarrow>
   HashMetaTx m ds =
     Inr (Keccak256 ([0x19, 0x01] @ ds @
            Keccak256 (Keccak256 (bytes_of_string FORWARD_REQUEST_TYPEHASH)
                       @ Bytes (From m) @ Bytes (Token m) @ be32 0
                       @ be32 (unat (Gas m)) @ be32 (unat (Nonce m)) @ be32 (unat (Deadline m))
                       @ Keccak256 (spec_transferCalldata (To m) (nat \<bar>a\<bar>)))))"
  by (simp add: HashMetaTx_def TransferData_in_range spec_transferCalldata_def
      uint64_bytes32_def be32_def Let_def)

text \<open>C10: for a MetaTx whose \<open>Amount\<close> is a non-nil integer with \<open>0 \<le> Amount < 2 ^ 256\<close>,
  \<open>TransferData\<close> and \<open>HashMetaTx\<close> return a value (neither an error nor a panic), and
  \<open>HashMetaTx\<close> does so for a \<open>domainSeparator\<close> of any length, with a digest of 32 bytes.\<close>

theorem C10_no_error:
  assumes "Amount m = Some a" and "0 \<le> a" and "a < 2 ^ 256"
  shows "(\<exists>d. TransferData m = Inr d) \<and> (\<exists>h. HashMetaTx m ds = Inr h \<and> length h = 32)"
proof -
  from assms have r: "\<bar>a\<bar> < 2 ^ 256" by simp
  show ?thesis
    by (simp add: TransferData_in_range [OF assms(1) r] HashMetaTx_in_range [OF assms(1) r])
qed

text \<open>C7: when the digest can be built (\<open>Amount\<close> non-nil and below \<open>2 ^ 256\<close> in absolute
  value), \<open>VerifyMetaTxSignature\<close> hands the digest \<open>h\<close> and the 65 signature bytes to the
  recovery primitive. If the primitive returns a key, the result is the boolean
  \<open>recovered address = From\<close> (a mismatch is the value \<open>False\<close>, not an error); if it rejects
  the signature, the result is that error, wrapped; so the call returns an error exactly when
  the primitive does.\<close>

theorem C7_verify:
  assumes "Amount m = Some a" and "\<bar>a\<bar> < 2 ^ 256"
  shows "\<exists>h. HashMetaTx m ds = Inr h
     \<and> (\<forall>pk. SigToPub h (ToBytes sg) = Inr pk \<longrightarrow>
            VerifyMetaTxSignature SigToPub PubkeyToAddress m sg ds
              = Inr (PubkeyToAddress pk = From m))
     \<and> (\<forall>e. SigToPub h (ToBytes sg) = Inl e \<longrightarrow>
            VerifyMetaTxSignature SigToPub PubkeyToAddress m sg ds
              = Inl (wrap ''failed to recover public key'' e))
     \<and> (isl (VerifyMetaTxSignature SigToPub PubkeyToAddress m sg ds)
          = isl (SigToPub h (ToBytes sg)))"
  by (simp add: HashMetaTx_in_range [OF assms] VerifyMetaTxSignature_def split: sum.split)

lemma nonces_from_None:
  "(nonces_from i batch e = None) =
   (\<forall>j<length batch. Nonce (MetaTx (batch ! j)) = e + of_nat (i + j))"
proof (induction batch arbitrary: i)
  case Nil
  then show ?case by simp
next
  case (Cons req rest)
  show ?case
    by (auto simp: Cons.IH Let_def less_Suc_eq_0_disj)
qed

lemma nonces_from_Some:
  "(nonces_from i batch e = Some err) =
   (\<exists>k<length batch.
      err = NonceMismatch (i + k) (e + of_nat (i + k)) (Nonce (MetaTx (batch ! k)))
      \<and> Nonce (MetaTx (batch ! k)) \<noteq> e + of_nat (i + k)
      \<and> (\<forall>j<k. Nonce (MetaTx (batch ! j)) = e + of_nat (i + j)))"
proof (induction batch arbitrary: i)
  case Nil
  then show ?case by simp
next
  case (Cons req rest)
  show ?case
    by (auto simp: Cons.IH Let_def Ex_less_Suc2 All_less_Suc2)
qed

lemma NewMetaTxBatch_ok:
  "length rs = length ams \<Longrightarrow>
   NewMetaTxBatch f rs t ams g n d =
     Inr (map (\<lambda>i. \<lparr>From = f, To = rs ! i, Token = t, Amount = ams ! i, Gas = g,
                      Nonce = n + of_nat i, Deadline = d\<rparr>) [0..<length rs])"
  by (simp add: NewMetaTxBatch_def NewMetaTx_def)

lemma batch_nonces_valid:
  assumes "map MetaTx batch =
     map (\<lambda>i. \<lparr>From = f, To = rs ! i, Token = t, Amount = ams ! i, Gas = g,
                 Nonce = n + of_nat i, Deadline = d\<rparr>) [0..<k]"
  shows "ValidateBatchNonces batch n = None"
proof -
  have len: "length batch = k"
    using arg_cong [OF assms, of length] by simp
  have "Nonce (MetaTx (batch ! j)) = n + of_nat j" if "j < length batch" for j
  proof -
    have "MetaTx (batch ! j) = map MetaTx batch ! j"
      using that by simp
    also have "\<dots> = \<lparr>From = f, To = rs ! j, Token = t, Amount = ams ! j, Gas = g,
                 Nonce = n + of_nat j, Deadline = d\<rparr>"
      using that len by (simp add: assms)
    finally show ?thesis by simp
  qed
  then show ?thesis
    by (simp add: ValidateBatchNonces_def nonces_from_None)
qed

text \<open>C6: \<open>NewMetaTxBatch\<close> fails, with the length mismatch, exactly when the two lists differ
  in length; otherwise element \<open>i\<close> of its result holds the given fields and the nonce
  \<open>startingNonce + i\<close> (in \<open>uint64\<close>), and every batch whose requests carry these MetaTxs,
  whatever the signatures, passes \<open>ValidateBatchNonces\<close> from \<open>startingNonce\<close>.
  \<open>ValidateBatchNonces\<close> succeeds exactly when every nonce is \<open>expectedStartNonce + i\<close>, and
  otherwise reports the first index where it is not.\<close>

theorem C6_batch_nonces:
  "(isl (NewMetaTxBatch f rs t ams g n d) = (length rs \<noteq> length ams))
   \<and> (length rs \<noteq> length ams \<longrightarrow>
        NewMetaTxBatch f rs t ams g n d = Inl (LengthMismatch (length rs) (length ams)))
   \<and> (length rs = length ams \<longrightarrow>
        (\<exists>txs. NewMetaTxBatch f rs t ams g n d = Inr txs
           \<and> length txs = length rs
           \<and> (\<forall>i<length rs. txs ! i =
                 \<lparr>From = f, To = rs ! i, Token = t, Amount = ams ! i, Gas = g,
                  Nonce = n + of_nat i, Deadline = d\<rparr>)
           \<and> (\<forall>batch. map MetaTx batch = txs \<longrightarrow> ValidateBatchNonces batch n = None)))
   \<and> ((ValidateBatchNonces batch e = None)
        = (\<forall>j<length batch. Nonce (MetaTx (batch ! j)) = e + of_nat j))
   \<and> ((ValidateBatchNonces batch e = Some err)
        = (\<exists>k<length batch.
             err = NonceMismatch k (e + of_nat k) (Nonce (MetaTx (batch ! k)))
             \<and> Nonce (MetaTx (batch ! k)) \<noteq> e + of_nat k
             \<and> (\<forall>j<k. Nonce (MetaTx (batch ! j)) = e + of_nat j)))"
proof (intro conjI impI)
  show "isl (NewMetaTxBatch f rs t ams g n d) = (length rs \<noteq> length ams)"
    by (simp add: NewMetaTxBatch_def)
next
  assume "length rs \<noteq> length ams"
  then show "NewMetaTxBatch f rs t ams g n d = Inl (LengthMismatch (length rs) (length ams))"
    by (simp add: NewMetaTxBatch_def)
next
  assume eq: "length rs = length ams"
  show "\<exists>txs. NewMetaTxBatch f rs t ams g n d = Inr txs
           \<and> length txs = length rs
           \<and> (\<forall>i<length rs. txs ! i =
                 \<lparr>From = f, To = rs ! i, Token = t, Amount = ams ! i, Gas = g,
                  Nonce = n + of_nat i, Deadline = d\<rparr>)
           \<and> (\<forall>batch. map MetaTx batch = txs \<longrightarrow> ValidateBatchNonces batch n = None)"
  proof (intro exI conjI allI impI)
    show "NewMetaTxBatch f rs t ams g n d =
       Inr (map (\<lambda>i. \<lparr>From = f, To = rs ! i, Token = t, Amount = ams ! i, Gas = g,
                      Nonce = n + of_nat i, Deadline = d\<rparr>) [0..<length rs])"
      by (rule NewMetaTxBatch_ok [OF eq])
  next
    show "length (map (\<lambda>i. \<lparr>From = f, To = rs ! i, Token = t, Amount = ams ! i, Gas = g,
                      Nonce = n + of_nat i, Deadline = d\<rparr>) [0..<length rs]) = length rs"
      by simp
  next
    fix i assume "i < length rs"
    then show "map (\<lambda>i. \<lparr>From = f, To = rs ! i, Token = t, Amount = ams ! i, Gas = g,
                      Nonce = n + of_nat i, Deadline = d\<rparr>) [0..<length rs] ! i =
        \<lparr>From = f, To = rs ! i, Token = t, Amount = ams ! i, Gas = g,
                  Nonce = n + of_nat i, Deadline = d\<rparr>"
      by simp
  next
    fix batch :: "BatchMetaTxRequest list"
    assume "map MetaTx batch = map (\<lambda>i. \<lparr>From = f, To = rs ! i, Token = t, Amount = ams ! i, Gas = g,
                      Nonce = n + of_nat i, Deadline = d\<rparr>) [0..<length rs]"
    then show "ValidateBatchNonces batch n = None"
      by (rule batch_nonces_valid)
  qed
next
  show "(ValidateBatchNonces batch e = None)
        = (\<forall>j<length batch. Nonce (MetaTx (batch ! j)) = e + of_nat j)"
    by (simp add: ValidateBatchNonces_def nonces_from_None)
next
  show "(ValidateBatchNonces batch e = Some err)
        = (\<exists>k<length batch.
             err = NonceMismatch k (e + of_nat k) (Nonce (MetaTx (batch ! k)))
             \<and> Nonce (MetaTx (batch ! k)) \<noteq> e + of_nat k
             \<and> (\<forall>j<k. Nonce (MetaTx (batch ! j)) = e + of_nat j))"
    by (simp add: ValidateBatchNonces_def nonces_from_Some)
qed

text \<open>V5: two recipients from nonce 7 give the nonces 7 and 8; they validate from 7 and fail
  at index 0 from 8.\<close>

theorem C6_batch_nonces_witness:
  "NewMetaTxBatch zero_address [zero_address, zero_address] zero_address [Some 1, Some 2] 100000 7 9
     = Inr [\<lparr>From = zero_address, To = zero_address, Token = zero_address, Amount = Some 1,
             Gas = 100000, Nonce = 7, Deadline = 9\<rparr>,
            \<lparr>From = zero_address, To = zero_address, Token = zero_address, Amount = Some 2,
             Gas = 100000, Nonce = 8, Deadline = 9\<rparr>]
   \<and> NewMetaTxBatch zero_address [zero_address] zero_address [] 100000 7 9
     = Inl (LengthMismatch 1 0)
   \<and> ValidateBatchNonces
       [\<lparr>MetaTx = \<lparr>From = zero_address, To = zero_address, Token = zero_address,
                    Amount = Some 1, Gas = 100000, Nonce = 7, Deadline = 9\<rparr>,
         Signature = zero_signature\<rparr>,
        \<lparr>MetaTx = \<lparr>From = zero_address, To = zero_address, Token = zero_address,
                    Amount = Some 2, Gas = 100000, Nonce = 8, Deadline = 9\<rparr>,
         Signature = zero_signature\<rparr>] 7 = None
   \<and> ValidateBatchNonces
       [\<lparr>MetaTx = \<lparr>From = zero_address, To = zero_address, Token = zero_address,
                    Amount = Some 1, Gas = 100000, Nonce = 7, Deadline = 9\<rparr>,
         Signature = zero_signature\<rparr>,
        \<lparr>MetaTx = \<lparr>From = zero_address, To = zero_address, Token = zero_address,
                    Amount = Some 2, Gas = 100000, Nonce = 8, Deadline = 9\<rparr>,
         Signature = zero_signature\<rparr>] 8 = Some (NonceMismatch 0 8 7)"
  using C6_batch_nonces [of zero_address "[zero_address, zero_address]" zero_address
      "[Some 1, Some 2]" 100000 7 9
      "[\<lparr>MetaTx = \<lparr>From = zero_address, To = zero_address, Token = zero_address,
                    Amount = Some 1, Gas = 100000, Nonce = 7, Deadline = 9\<rparr>,
         Signature = zero_signature\<rparr>,
        \<lparr>MetaTx = \<lparr>From = zero_address, To = zero_address, Token = zero_address,
                    Amount = Some 2, Gas = 100000, Nonce = 8, Deadline = 9\<rparr>,
         Signature = zero_signature\<rparr>]" 7 "NonceMismatch 0 8 7"]
    C6_batch_nonces [of zero_address "[zero_address]" zero_address "[]" 100000 7 9 "[]" 0 ErrInvalidNonce]
  by (simp add: NewMetaTxBatch_def NewMetaTx_def ValidateBatchNonces_def Let_def
      numeral_2_eq_2)

text \<open>C3: for a MetaTx with amount \<open>0 \<le> a < 2 ^ 256\<close>, \<open>TransferData\<close> returns the selector
  \<open>a9 05 9c bb\<close> (the first four bytes of the Keccak-256 digest of
  \<open>transfer(address,uint256)\<close>), then the recipient left-padded with 12 zero bytes, then
  the amount as 32 big-endian bytes: 68 bytes in all.\<close>

theorem C3_transfer_data:
  assumes "Amount m = Some a" and "0 \<le> a" and "a < 2 ^ 256"
  shows "TransferData m = Inr ([0xa9, 0x05, 0x9c, 0xbb] @ leftpad32 (To m) @ be32 (nat a))
     \<and> take 4 (Keccak256 (bytes_of_string ''transfer(address,uint256)'')) = [0xa9, 0x05, 0x9c, 0xbb]
     \<and> leftpad32 (To m) = replicate 12 0 @ Bytes (To m)
     \<and> length ([0xa9, 0x05, 0x9c, 0xbb] @ leftpad32 (To m) @ be32 (nat a)) = 68"
proof -
  from assms have r: "\<bar>a\<bar> < 2 ^ 256" and n: "\<bar>a\<bar> = a" by simp_all
  show ?thesis
    using TransferData_in_range [OF assms(1) r]
    by (simp add: transfer_selector n be32_def leftpad32_def)
qed

text \<open>V2: recipient \<open>0x00..01\<close> and amount 1.\<close>

theorem C3_transfer_data_witness:
  "Amount \<lparr>From = zero_address, To = Abs_address (replicate 19 0 @ [1]), Token = zero_address,
            Amount = Some 1, Gas = 100000, Nonce = 7, Deadline = 9\<rparr> = Some 1
   \<and> (0 :: int) \<le> 1 \<and> (1 :: int) < 2 ^ 256
   \<and> TransferData \<lparr>From = zero_address, To = Abs_address (replicate 19 0 @ [1]),
            Token = zero_address, Amount = Some 1, Gas = 100000, Nonce = 7, Deadline = 9\<rparr>
       = Inr ([0xa9, 0x05, 0x9c, 0xbb] @ (replicate 12 0 @ replicate 19 0 @ [1]) @ be32 1)
   \<and> length (be32 1) = 32"
  using C3_transfer_data [of "\<lparr>From = zero_address, To = Abs_address (replicate 19 0 @ [1]),
            Token = zero_address, Amount = Some 1, Gas = 100000, Nonce = 7, Deadline = 9\<rparr>" 1]
  by (simp add: leftpad32_def Bytes_def Abs_address_inverse be32_def)

text \<open>An instance of C10, with a domain separator of three bytes.\<close>

theorem C10_no_error_witness:
  "Amount \<lparr>From = zero_address, To = zero_address, Token = zero_address,
            Amount = Some 1, Gas = 100000, Nonce = 7, Deadline = 9\<rparr> = Some 1
   \<and> (0 :: int) \<le> 1 \<and> (1 :: int) < 2 ^ 256
   \<and> (\<exists>d. TransferData \<lparr>From = zero_address, To = zero_address, Token = zero_address,
            Amount = Some 1, Gas = 100000, Nonce = 7, Deadline = 9\<rparr> = Inr d)
   \<and> (\<exists>h. HashMetaTx \<lparr>From = zero_address, To = zero_address, Token = zero_address,
            Amount = Some 1, Gas = 100000, Nonce = 7, Deadline = 9\<rparr> [1, 2, 3] = Inr h
          \<and> length h = 32)"
  using C10_no_error [of "\<lparr>From = zero_address, To = zero_address, Token = zero_address,
            Amount = Some 1, Gas = 100000, Nonce = 7, Deadline = 9\<rparr>" 1 "[1, 2, 3]"]
  by simp

text \<open>An instance of C7, with a recovery function that accepts a signature only when its
  last byte is 0 and reads the address from the first 20 signature bytes.\<close>

theorem C7_verify_witness:
  "\<exists>h. HashMetaTx \<lparr>From = zero_address, To = zero_address, Token = zero_address,
            Amount = Some 1, Gas = 100000, Nonce = 7, Deadline = 9\<rparr> [] = Inr h
   \<and> VerifyMetaTxSignature (\<lambda>h s. if s ! 64 = 0 then Inr s else Inl PrimitiveErr)
        (\<lambda>pk. Abs_address (take 20 pk))
        \<lparr>From = zero_address, To = zero_address, Token = zero_address,
            Amount = Some 1, Gas = 100000, Nonce = 7, Deadline = 9\<rparr> zero_signature []
       = Inr True
   \<and> VerifyMetaTxSignature (\<lambda>h s. if s ! 64 = 0 then Inr s else Inl PrimitiveErr)
        (\<lambda>pk. Abs_address (take 20 pk))
        \<lparr>From = zero_address, To = zero_address, Token = zero_address,
            Amount = Some 1, Gas = 100000, Nonce = 7, Deadline = 9\<rparr>
        (zero_signature\<lparr>V := 9\<rparr>) []
       = Inl (Wrap ''failed to recover public key'' PrimitiveErr)"
proof -
  let ?m = "\<lparr>From = zero_address, To = zero_address, Token = zero_address,
            Amount = Some 1, Gas = 100000, Nonce = 7, Deadline = 9\<rparr>"
  let ?rec = "\<lambda>(h :: byte list) (s :: byte list). if s ! 64 = 0 then Inr s else Inl PrimitiveErr"
  let ?addr = "\<lambda>pk :: byte list. Abs_address (take 20 pk)"
  have a: "Amount ?m = Some 1" by simp
  have b: "\<bar>1 :: int\<bar> < 2 ^ 256" by simp
  have z: "ToBytes zero_signature ! 64 = 0"
    by (simp add: ToBytes_layout zero_signature_def nth_append)
  have z9: "ToBytes (zero_signature\<lparr>V := 9\<rparr>) ! 64 = 9"
    by (simp add: ToBytes_layout zero_signature_def nth_append)
  have t: "take 20 (ToBytes zero_signature) = replicate 20 0"
    by (simp add: ToBytes_layout zero_signature_def Abs_bytes32_inverse)
  from C7_verify [OF a b, of "[]" ?rec zero_signature ?addr]
       C7_verify [OF a b, of "[]" ?rec "zero_signature\<lparr>V := 9\<rparr>" ?addr]
  show ?thesis
    by (auto simp: z z9 t zero_address_def)
qed

section \<open>Constructors and validation\<close>

lemma validateMetaTx_None:
  "(validateMetaTx m = None) =
   (From m \<noteq> zero_address \<and> To m \<noteq> zero_address \<and> Token m \<noteq> zero_address
    \<and> (\<exists>a. Amount m = Some a \<and> 0 < a) \<and> Deadline m \<noteq> 0)"
  by (auto simp: validateMetaTx_def sgn_if split: option.splits)

lemma validateMetaTx_Some_wrap:
  "validateMetaTx m = Some err \<Longrightarrow> wrap msg err = Wrap msg err \<and> wrap_at msg i err = WrapAt msg i err"
  by (auto simp: validateMetaTx_def split: if_splits)

text \<open>The constructors as the claim C9 states them would never fail; \<open>NewMetaTxBatch\<close>
  does, on one recipient and no amount.\<close>

theorem C9_constructors_counterexample:
  "NewMetaTxBatch zero_address [zero_address] zero_address [] 100000 0 0
     = Inl (LengthMismatch 1 0)"
  by (simp add: NewMetaTxBatch_def)

text \<open>C9, amended: \<open>NewMetaTx\<close> and \<open>NewMetaTxWithDefaultGas\<close> return the given fields, whatever
  they are (the latter with gas 100000), and so does every element of \<open>NewMetaTxBatch\<close>, which
  fails only on lists of different lengths. The invariants are checked by \<open>validateMetaTx\<close>
  alone: it accepts exactly the MetaTxs with three nonzero addresses, a non-nil positive amount
  and a nonzero deadline, and \<open>RelayMetaTx\<close> and \<open>RelayMetaTxBatch\<close> return its error, wrapped,
  before anything else.\<close>

theorem C9_constructors_no_validation:
  "NewMetaTx f t k a g n d =
     \<lparr>From = f, To = t, Token = k, Amount = a, Gas = g, Nonce = n, Deadline = d\<rparr>
   \<and> NewMetaTxWithDefaultGas f t k a n d =
     \<lparr>From = f, To = t, Token = k, Amount = a, Gas = 100000, Nonce = n, Deadline = d\<rparr>
   \<and> (length rs = length ams \<longrightarrow>
        NewMetaTxBatch f rs k ams g n d =
          Inr (map (\<lambda>i. \<lparr>From = f, To = rs ! i, Token = k, Amount = ams ! i, Gas = g,
                           Nonce = n + of_nat i, Deadline = d\<rparr>) [0..<length rs]))
   \<and> ((validateMetaTx m = None) =
        (From m \<noteq> zero_address \<and> To m \<noteq> zero_address \<and> Token m \<noteq> zero_address
         \<and> (\<exists>v. Amount m = Some v \<and> 0 < v) \<and> Deadline m \<noteq> 0))
   \<and> (validateMetaTx m = Some err \<longrightarrow>
        RelayMetaTx now submit m sg = Inl (Wrap ''invalid MetaTx'' err))
   \<and> (validateMetaTx (MetaTx req) = Some err \<longrightarrow>
        RelayMetaTxBatch nows submitBatch (req # rest) refund
          = Inl (WrapAt ''invalid MetaTx at index'' 0 err))"
  using validateMetaTx_Some_wrap [of m err] validateMetaTx_Some_wrap [of "MetaTx req" err]
  by (simp add: NewMetaTx_def NewMetaTxWithDefaultGas_def NewMetaTxBatch_ok validateMetaTx_None
      RelayMetaTx_def RelayMetaTxBatch_def)

section \<open>Cancellation of the batch operations\<close>

lemma batch_loop_cancel_at:
  "k < length xs \<Longrightarrow> ctx (i + k) \<Longrightarrow>
   (\<forall>j<k. \<not> ctx (i + j) \<and> (\<exists>y. step (xs ! j) = Inr y)) \<Longrightarrow>
   batch_loop ctx step msg i xs = (Inl ContextErr, take k xs)"
proof (induction xs arbitrary: i k)
  case Nil
  then show ?case by simp
next
  case (Cons x rest)
  show ?case
  proof (cases k)
    case 0
    with Cons.prems show ?thesis by simp
  next
    case (Suc k')
    from Cons.prems(3) Suc have now: "\<not> ctx i" and ok: "\<exists>y. step x = Inr y"
      by force+
    from ok obtain y where y: "step x = Inr y" ..
    have "batch_loop ctx step msg (Suc i) rest = (Inl ContextErr, take k' rest)"
    proof (rule Cons.IH)
      show "k' < length rest" using Cons.prems(1) Suc by simp
      show "ctx (Suc i + k')" using Cons.prems(2) Suc by simp
      show "\<forall>j<k'. \<not> ctx (Suc i + j) \<and> (\<exists>y. step (rest ! j) = Inr y)"
      proof (intro allI impI)
        fix j assume "j < k'"
        then have "Suc j < k" using Suc by simp
        with Cons.prems(3) have "\<not> ctx (i + Suc j) \<and> (\<exists>y. step ((x # rest) ! Suc j) = Inr y)"
          by blast
        then show "\<not> ctx (Suc i + j) \<and> (\<exists>y. step (rest ! j) = Inr y)" by simp
      qed
    qed
    with now y Suc show ?thesis by simp
  qed
qed

text \<open>With the signal already cancelled, an empty batch is not answered with the
  cancellation: the loop never polls, and the empty result is returned.\<close>

theorem C8_cancellation_counterexample:
  "CreateBatchFromSingleUser (\<lambda>i. True) (\<lambda>h k. Inl PrimitiveErr) [] () [] = (Inr [], [])"
  by (simp add: CreateBatchFromSingleUser_def)

text \<open>C8, amended: the three batch operations poll the signal before each element, in
  ascending order. If the poll before element \<open>k\<close> is the first to find the signal cancelled
  and the elements before it were processed without error, the operation returns the error of
  the context and has handed exactly the first \<open>k\<close> elements, in order, to the function that
  reaches the primitive. So with the signal cancelled from the start, a non-empty batch (for
  \<open>CreateBatchFromMetaTxs\<close>, with as many keys as MetaTxs) is answered with that error and the
  primitive is never reached; an empty batch returns the empty result without a poll.\<close>

theorem C8_cancellation:
  "(k < length metaTxs \<and> ctx k
      \<and> (\<forall>j<k. \<not> ctx j \<and> (\<exists>r. CreateBatchRequest Sign (metaTxs ! j) key ds = Inr r))
     \<longrightarrow> CreateBatchFromSingleUser ctx Sign metaTxs key ds
           = (Inl ContextErr, map (\<lambda>m. (m, key)) (take k metaTxs)))
   \<and> (length metaTxs = length keys \<and> k < length metaTxs \<and> ctx k
      \<and> (\<forall>j<k. \<not> ctx j \<and> (\<exists>r. CreateBatchRequest Sign (metaTxs ! j) (keys ! j) ds = Inr r))
     \<longrightarrow> CreateBatchFromMetaTxs ctx Sign metaTxs keys ds
           = (Inl ContextErr, take k (zip metaTxs keys)))
   \<and> (k < length batch \<and> ctx k
      \<and> (\<forall>j<k. \<not> ctx j
            \<and> (\<exists>b. VerifyMetaTxSignature SigToPub PubkeyToAddress (MetaTx (batch ! j))
                      (Signature (batch ! j)) ds = Inr b))
     \<longrightarrow> VerifyBatchRequests ctx SigToPub PubkeyToAddress batch ds
           = (Inl ContextErr, take k batch))
   \<and> (ctx 0 \<and> metaTxs \<noteq> []
     \<longrightarrow> CreateBatchFromSingleUser ctx Sign metaTxs key ds = (Inl ContextErr, []))
   \<and> (ctx 0 \<and> metaTxs \<noteq> [] \<and> length metaTxs = length keys
     \<longrightarrow> CreateBatchFromMetaTxs ctx Sign metaTxs keys ds = (Inl ContextErr, []))
   \<and> (ctx 0 \<and> batch \<noteq> []
     \<longrightarrow> VerifyBatchRequests ctx SigToPub PubkeyToAddress batch ds = (Inl ContextErr, []))
   \<and> CreateBatchFromSingleUser ctx Sign [] key ds = (Inr [], [])
   \<and> CreateBatchFromMetaTxs ctx Sign [] [] ds = (Inr [], [])
   \<and> VerifyBatchRequests ctx SigToPub PubkeyToAddress [] ds = (Inr [], [])"
proof (intro conjI impI)
  assume h: "k < length metaTxs \<and> ctx k
      \<and> (\<forall>j<k. \<not> ctx j \<and> (\<exists>r. CreateBatchRequest Sign (metaTxs ! j) key ds = Inr r))"
  show "CreateBatchFromSingleUser ctx Sign metaTxs key ds
           = (Inl ContextErr, map (\<lambda>m. (m, key)) (take k metaTxs))"
    unfolding CreateBatchFromSingleUser_def take_map [symmetric]
    by (rule batch_loop_cancel_at) (use h in simp_all)
next
  assume h: "length metaTxs = length keys \<and> k < length metaTxs \<and> ctx k
      \<and> (\<forall>j<k. \<not> ctx j \<and> (\<exists>r. CreateBatchRequest Sign (metaTxs ! j) (keys ! j) ds = Inr r))"
  have "batch_loop ctx (\<lambda>(metaTx, k). CreateBatchRequest Sign metaTx k ds)
          ''failed to create batch request at index'' 0 (zip metaTxs keys)
        = (Inl ContextErr, take k (zip metaTxs keys))"
    by (rule batch_loop_cancel_at) (use h in simp_all)
  with h show "CreateBatchFromMetaTxs ctx Sign metaTxs keys ds
           = (Inl ContextErr, take k (zip metaTxs keys))"
    by (simp add: CreateBatchFromMetaTxs_def)
next
  assume h: "k < length batch \<and> ctx k
      \<and> (\<forall>j<k. \<not> ctx j
            \<and> (\<exists>b. VerifyMetaTxSignature SigToPub PubkeyToAddress (MetaTx (batch ! j))
                      (Signature (batch ! j)) ds = Inr b))"
  show "VerifyBatchRequests ctx SigToPub PubkeyToAddress batch ds
           = (Inl ContextErr, take k batch)"
    unfolding VerifyBatchRequests_def
    by (rule batch_loop_cancel_at) (use h in simp_all)
next
  assume "ctx 0 \<and> metaTxs \<noteq> []"
  then show "CreateBatchFromSingleUser ctx Sign metaTxs key ds = (Inl ContextErr, [])"
    by (cases metaTxs) (simp_all add: CreateBatchFromSingleUser_def)
next
  assume h: "ctx 0 \<and> metaTxs \<noteq> [] \<and> length metaTxs = length keys"
  then obtain m ms k' ks where "metaTxs = m # ms" and "keys = k' # ks"
    by (cases metaTxs; cases keys) auto
  with h show "CreateBatchFromMetaTxs ctx Sign metaTxs keys ds = (Inl ContextErr, [])"
    by (simp add: CreateBatchFromMetaTxs_def)
next
  assume "ctx 0 \<and> batch \<noteq> []"
  then show "VerifyBatchRequests ctx SigToPub PubkeyToAddress batch ds = (Inl ContextErr, [])"
    by (cases batch) (simp_all add: VerifyBatchRequests_def)
qed (simp_all add: CreateBatchFromSingleUser_def CreateBatchFromMetaTxs_def VerifyBatchRequests_def)

text \<open>Instances of C8: a signal cancelled after the first element, and signals cancelled from
  the start.\<close>

theorem C8_cancellation_witness:
  "CreateBatchFromSingleUser (\<lambda>i. 1 \<le> i) (\<lambda>h k. Inr (replicate 65 0))
      [\<lparr>From = zero_address, To = zero_address, Token = zero_address, Amount = Some 1,
        Gas = 100000, Nonce = 7, Deadline = 9\<rparr>,
       \<lparr>From = zero_address, To = zero_address, Token = zero_address, Amount = Some 2,
        Gas = 100000, Nonce = 8, Deadline = 9\<rparr>] () []
     = (Inl ContextErr,
        [(\<lparr>From = zero_address, To = zero_address, Token = zero_address, Amount = Some 1,
           Gas = 100000, Nonce = 7, Deadline = 9\<rparr>, ())])
   \<and> CreateBatchFromMetaTxs (\<lambda>i. True) (\<lambda>h k. Inr (replicate 65 0))
      [\<lparr>From = zero_address, To = zero_address, Token = zero_address, Amount = Some 1,
        Gas = 100000, Nonce = 7, Deadline = 9\<rparr>] [()] []
     = (Inl ContextErr, [])
   \<and> VerifyBatchRequests (\<lambda>i. True) (\<lambda>h s. Inr ()) (\<lambda>pk. zero_address)
      [\<lparr>MetaTx = \<lparr>From = zero_address, To = zero_address, Token = zero_address,
                   Amount = Some 1, Gas = 100000, Nonce = 7, Deadline = 9\<rparr>,
        Signature = zero_signature\<rparr>] []
     = (Inl ContextErr, [])"
proof -
  let ?m = "\<lparr>From = zero_address, To = zero_address, Token = zero_address, Amount = Some 1,
        Gas = 100000, Nonce = 7, Deadline = 9\<rparr>"
  let ?m2 = "\<lparr>From = zero_address, To = zero_address, Token = zero_address, Amount = Some 2,
        Gas = 100000, Nonce = 8, Deadline = 9\<rparr>"
  let ?sign = "\<lambda>(h :: byte list) (k :: unit). (Inr (replicate 65 0) :: error + byte list)"
  let ?rec = "\<lambda>(h :: byte list) (s :: byte list). (Inr () :: error + unit)"
  let ?addr = "\<lambda>pk :: unit. zero_address"
  have r: "\<exists>r. CreateBatchRequest ?sign ?m () [] = Inr r"
    by (simp add: CreateBatchRequest_def SignMetaTx_def HashMetaTx_in_range [of ?m 1]
        FromBytes_def)
  have one: "CreateBatchFromSingleUser (\<lambda>i. 1 \<le> i) ?sign [?m, ?m2] () []
      = (Inl ContextErr, [(?m, ())])"
    using r C8_cancellation [where k = 1 and metaTxs = "[?m, ?m2]" and ctx = "\<lambda>i. 1 \<le> i"
        and Sign = ?sign and key = "()" and ds = "[]" and keys = "[]" and batch = "[]"
        and SigToPub = ?rec and PubkeyToAddress = ?addr]
    by simp
  have two: "CreateBatchFromMetaTxs (\<lambda>i. True) ?sign [?m] [()] [] = (Inl ContextErr, [])"
    using C8_cancellation [where k = 0 and metaTxs = "[?m]" and ctx = "\<lambda>i. True"
        and Sign = ?sign and key = "()" and keys = "[()]" and ds = "[]" and batch = "[]"
        and SigToPub = ?rec and PubkeyToAddress = ?addr]
    by simp
  have three: "VerifyBatchRequests (\<lambda>i. True) (\<lambda>h s. Inr ()) (\<lambda>pk. zero_address)
      [\<lparr>MetaTx = ?m, Signature = zero_signature\<rparr>] [] = (Inl ContextErr, [])"
    using C8_cancellation [where k = 0 and metaTxs = "[]" and key = "()" and keys = "[]"
        and Sign = ?sign and batch = "[\<lparr>MetaTx = ?m, Signature = zero_signature\<rparr>]"
        and ctx = "\<lambda>i. True" and ds = "[]" and SigToPub = ?rec and PubkeyToAddress = ?addr]
    by simp
  from one two three show ?thesis by simp
qed

text \<open>An instance of C9: zero addresses, a nil or negative amount and a zero deadline are
  accepted by the constructors and refused by the validator.\<close>

theorem C9_constructors_no_validation_witness:
  "NewMetaTx zero_address zero_address zero_address None 0 0 0 =
     \<lparr>From = zero_address, To = zero_address, Token = zero_address, Amount = None, Gas = 0,
      Nonce = 0, Deadline = 0\<rparr>
   \<and> NewMetaTxBatch zero_address [zero_address] zero_address [Some (- 5)] 0 0 0 =
     Inr [\<lparr>From = zero_address, To = zero_address, Token = zero_address, Amount = Some (- 5),
           Gas = 0, Nonce = 0, Deadline = 0\<rparr>]
   \<and> validateMetaTx (NewMetaTx zero_address zero_address zero_address None 0 0 0)
       = Some ErrZeroAddress
   \<and> RelayMetaTx 0 (\<lambda>m d s. Inr ())
        (NewMetaTx zero_address zero_address zero_address None 0 0 0) zero_signature
       = Inl (Wrap ''invalid MetaTx'' ErrZeroAddress)
   \<and> RelayMetaTxBatch (\<lambda>i. 0) (\<lambda>b r. Inr ())
        [\<lparr>MetaTx = NewMetaTx zero_address zero_address zero_address None 0 0 0,
          Signature = zero_signature\<rparr>] zero_address
       = Inl (WrapAt ''invalid MetaTx at index'' 0 ErrZeroAddress)"
proof -
  let ?m = "NewMetaTx zero_address zero_address zero_address None 0 0 0"
  have v: "validateMetaTx ?m = Some ErrZeroAddress"
    by (simp add: validateMetaTx_def NewMetaTx_def)
  have v': "validateMetaTx (MetaTx \<lparr>MetaTx = ?m, Signature = zero_signature\<rparr>) = Some ErrZeroAddress"
    using v by simp
  from C9_constructors_no_validation [where f = zero_address and t = zero_address
      and k = zero_address and a = None and g = 0 and n = 0 and d = 0
      and rs = "[zero_address]" and ams = "[Some (- 5)]" and m = ?m and err = ErrZeroAddress
      and now = 0 and submit = "\<lambda>m d s. Inr ()" and sg = zero_signature
      and req = "\<lparr>MetaTx = ?m, Signature = zero_signature\<rparr>" and rest = "[]"
      and nows = "\<lambda>i. 0" and submitBatch = "\<lambda>b r. Inr ()" and refund = zero_address]
    v v'
  show ?thesis by (simp add: NewMetaTx_def)
qed

end
